theory Spec2Isabelle
  imports Complex_Main "HOL-Library.AList" "HOL-Library.Sublist"
begin

section \<open>JavaScript values used by the registry pipeline\<close>

text \<open>
  TypeScript enums with string initialisers are plain strings at run time, and the code
  looks them up with \<open>Object.values(E).includes(x)\<close> and \<open>RECORD[x]\<close>. The model keeps
  that picture: an enum member is a string constant, a \<open>Record\<close> or a \<open>Map\<close> is an
  association list in insertion order, and a lookup that JavaScript answers with
  \<open>undefined\<close> is \<open>None\<close>.
\<close>

named_theorems enum_defs \<open>values of the enum members\<close>

subsection \<open>Strings\<close>

text \<open>\<open>String.prototype.includes\<close>: does \<open>sub\<close> occur as a contiguous run of \<open>s\<close>.\<close>

fun includes_str :: "string \<Rightarrow> string \<Rightarrow> bool" where
  "includes_str [] sub = (sub = [])"
| "includes_str (c # cs) sub = (prefix sub (c # cs) \<or> includes_str cs sub)"

definition upper_to_lower :: "(char \<times> char) list" where
  "upper_to_lower = zip ''ABCDEFGHIJKLMNOPQRSTUVWXYZ'' ''abcdefghijklmnopqrstuvwxyz''"

definition toLowerCase_char :: "char \<Rightarrow> char" where
  "toLowerCase_char c = (case map_of upper_to_lower c of None \<Rightarrow> c | Some d \<Rightarrow> d)"

text \<open>\<open>String.prototype.toLowerCase\<close> on the ASCII letters the messages are made of.\<close>

definition toLowerCase :: "string \<Rightarrow> string" where
  "toLowerCase s = map toLowerCase_char s"

text \<open>A message mentions a phrase when its lower-cased text includes the phrase.\<close>

definition mentions :: "string \<Rightarrow> string \<Rightarrow> bool" where
  "mentions msg phrase = includes_str (toLowerCase msg) phrase"

subsection \<open>Maps in insertion order\<close>

text \<open>
  A JavaScript \<open>Map\<close> keeps its keys in insertion order; \<open>set\<close> on a present key
  replaces the value in place, \<open>set\<close> on a new key appends, \<open>delete\<close> removes.
\<close>

definition Map_get :: "(string \<times> 'v) list \<Rightarrow> string \<Rightarrow> 'v option" where
  "Map_get m k = map_of m k"

definition Map_has :: "(string \<times> 'v) list \<Rightarrow> string \<Rightarrow> bool" where
  "Map_has m k = (map_of m k \<noteq> None)"

definition Map_set :: "string \<Rightarrow> 'v \<Rightarrow> (string \<times> 'v) list \<Rightarrow> (string \<times> 'v) list" where
  "Map_set k v m = AList.update k v m"

definition Map_delete :: "string \<Rightarrow> (string \<times> 'v) list \<Rightarrow> (string \<times> 'v) list" where
  "Map_delete k m = AList.delete k m"

definition Map_size :: "(string \<times> 'v) list \<Rightarrow> nat" where
  "Map_size m = length m"

section \<open>Theme engine (theme-engine.ts)\<close>

definition NEON_BLUE :: string where [enum_defs]: "NEON_BLUE = ''neon_blue''"
definition EMERALD_GREEN :: string where [enum_defs]: "EMERALD_GREEN = ''emerald_green''"
definition CYBER_PINK :: string where [enum_defs]: "CYBER_PINK = ''cyber_pink''"

text \<open>\<open>Object.values(ThemePalette)\<close>.\<close>

definition ThemePalette_values :: "string list" where
  "ThemePalette_values = [NEON_BLUE, EMERALD_GREEN, CYBER_PINK]"

record ThemeColors =
  primary :: string
  secondary :: string
  accent :: string
  glow :: string

record ThemeDefinition =
  theme_name :: string
  displayName :: string
  colors :: ThemeColors
  cssClass :: string

definition THEME_DEFINITIONS :: "(string \<times> ThemeDefinition) list" where
  "THEME_DEFINITIONS =
    [(NEON_BLUE,
       \<lparr>theme_name = NEON_BLUE, displayName = ''Neon Blue'',
        colors = \<lparr>primary = ''#00d4ff'', secondary = ''#0099cc'', accent = ''#66e0ff'',
                  glow = ''rgba(0, 212, 255, 0.3)''\<rparr>,
        cssClass = ''theme-neon-blue''\<rparr>),
     (EMERALD_GREEN,
       \<lparr>theme_name = EMERALD_GREEN, displayName = ''Emerald Green'',
        colors = \<lparr>primary = ''#00ff88'', secondary = ''#00cc6a'', accent = ''#66ffaa'',
                  glow = ''rgba(0, 255, 136, 0.3)''\<rparr>,
        cssClass = ''theme-emerald-green''\<rparr>),
     (CYBER_PINK,
       \<lparr>theme_name = CYBER_PINK, displayName = ''Cyber Pink'',
        colors = \<lparr>primary = ''#ff0080'', secondary = ''#cc0066'', accent = ''#ff66b3'',
                  glow = ''rgba(255, 0, 128, 0.3)''\<rparr>,
        cssClass = ''theme-cyber-pink''\<rparr>)]"

definition DEFAULT_THEME :: string where
  "DEFAULT_THEME = NEON_BLUE"

text \<open>The argument is a string here, so the \<open>typeof theme === "string"\<close> conjunct holds.\<close>

definition isValidTheme :: "string \<Rightarrow> bool" where
  "isValidTheme theme = (theme \<in> set ThemePalette_values)"

text \<open>
  \<open>getThemeDefinition\<close>: the result is the value of the property read, \<open>None\<close> where
  JavaScript would give \<open>undefined\<close>. The \<open>console.warn\<close> of the fallback branch is
  not part of the result.
\<close>

definition getThemeDefinition :: "string \<Rightarrow> ThemeDefinition option" where
  "getThemeDefinition theme =
    (if isValidTheme theme then map_of THEME_DEFINITIONS theme
     else map_of THEME_DEFINITIONS DEFAULT_THEME)"

text \<open>A definition is fully populated when its four colours and its CSS class are non-empty.\<close>

definition fully_populated :: "ThemeDefinition \<Rightarrow> bool" where
  "fully_populated d =
    (primary (colors d) \<noteq> [] \<and> secondary (colors d) \<noteq> [] \<and> accent (colors d) \<noteq> []
     \<and> glow (colors d) \<noteq> [] \<and> cssClass d \<noteq> [])"

subsection \<open>The engine's state and the event loop around it\<close>

text \<open>
  A listener is a callback \<open>(theme) => void\<close>. The model keeps its identity and whether
  it throws (\<open>Some msg\<close>: it throws a value that prints as \<open>msg\<close>); what else a
  listener does is outside the engine.
\<close>

record listener =
  listener_ref :: nat
  raises :: "string option"

text \<open>
  The engine's fields are \<open>currentTheme\<close> and \<open>listeners\<close>. The remaining fields are the
  host's: whether \<open>document\<close> is defined, the callbacks handed to
  \<open>requestAnimationFrame\<close> and to \<open>queueMicrotask\<close> that have not run yet (each closure
  captures the theme it was created with), the listener calls made so far, and the
  \<open>console.error\<close> lines.
\<close>

record ThemeEngine =
  currentTheme :: string
  listeners :: "listener list"
  document_defined :: bool
  animation_frames :: "string list"
  microtasks :: "string list"
  listener_calls :: "(nat \<times> string) list"
  console_errors :: "string list"

definition new_ThemeEngine :: "bool \<Rightarrow> ThemeEngine" where
  "new_ThemeEngine doc =
    \<lparr>currentTheme = DEFAULT_THEME, listeners = [], document_defined = doc,
     animation_frames = [], microtasks = [], listener_calls = [], console_errors = []\<rparr>"

definition getTheme :: "ThemeEngine \<Rightarrow> string" where
  "getTheme e = currentTheme e"

text \<open>\<open>applyGlobalTheme\<close>: nothing without a document, else one animation-frame callback.\<close>

definition applyGlobalTheme :: "string \<Rightarrow> ThemeEngine \<Rightarrow> ThemeEngine" where
  "applyGlobalTheme theme e =
    (if \<not> document_defined e then e
     else e\<lparr>animation_frames := animation_frames e @ [theme]\<rparr>)"

definition queueMicrotask :: "string \<Rightarrow> ThemeEngine \<Rightarrow> ThemeEngine" where
  "queueMicrotask validTheme e = e\<lparr>microtasks := microtasks e @ [validTheme]\<rparr>"

definition setTheme :: "string \<Rightarrow> ThemeEngine \<Rightarrow> ThemeEngine" where
  "setTheme theme e =
    (let validTheme = (if isValidTheme theme then theme else DEFAULT_THEME) in
     if validTheme = currentTheme e then e
     else queueMicrotask validTheme
            (applyGlobalTheme validTheme (e\<lparr>currentTheme := validTheme\<rparr>)))"

text \<open>\<open>subscribe\<close> adds to a \<open>Set\<close>: a listener already present is not added again.\<close>

definition subscribe :: "listener \<Rightarrow> ThemeEngine \<Rightarrow> ThemeEngine" where
  "subscribe l e = (if l \<in> set (listeners e) then e else e\<lparr>listeners := listeners e @ [l]\<rparr>)"

definition unsubscribe :: "listener \<Rightarrow> ThemeEngine \<Rightarrow> ThemeEngine" where
  "unsubscribe l e = e\<lparr>listeners := removeAll l (listeners e)\<rparr>"

text \<open>
  The body of the queued closure: every listener is called with the captured theme, and a
  listener that throws is logged and does not stop the others.
\<close>

fun notify_listeners :: "string \<Rightarrow> listener list \<Rightarrow> ThemeEngine \<Rightarrow> ThemeEngine" where
  "notify_listeners validTheme [] e = e"
| "notify_listeners validTheme (l # ls) e =
     notify_listeners validTheme ls
       (let e' = e\<lparr>listener_calls := listener_calls e @ [(listener_ref l, validTheme)]\<rparr> in
        case raises l of
          None \<Rightarrow> e'
        | Some err \<Rightarrow> e'\<lparr>console_errors := console_errors e' @ [''Theme listener error: '' @ err]\<rparr>)"

text \<open>
  The host runs the microtask queue once the running script has returned: each pending
  closure in turn, reading the listener set as it is when the closure runs.
\<close>

fun run_microtasks_from :: "string list \<Rightarrow> ThemeEngine \<Rightarrow> ThemeEngine" where
  "run_microtasks_from [] e = e"
| "run_microtasks_from (t # ts) e = run_microtasks_from ts (notify_listeners t (listeners e) e)"

definition run_microtasks :: "ThemeEngine \<Rightarrow> ThemeEngine" where
  "run_microtasks e = run_microtasks_from (microtasks e) (e\<lparr>microtasks := []\<rparr>)"

section \<open>Untyped input\<close>

text \<open>
  A JavaScript number is a finite value, \<open>NaN\<close> or an infinity. Finite values are
  rationals here (every double is one); only comparison with zero and equality are used,
  and both are exact on doubles. The two zeros are one value, as they are for \<open><\<close> and
  for the key comparison of a \<open>Set\<close>.
\<close>

datatype js_number = Finite rat | NaN | PosInfinity | NegInfinity

datatype js_value =
    JUndefined
  | JNull
  | JBool bool
  | JNum js_number
  | JStr string
  | JArr "js_value list"
  | JObj "(string \<times> js_value) list"
  | JFun



text \<open>The conversion to boolean of \<open>!x\<close>, \<open>x && y\<close> and \<open>x || y\<close>.\<close>

fun truthy :: "js_value \<Rightarrow> bool" where
  "truthy JUndefined = False"
| "truthy JNull = False"
| "truthy (JBool b) = b"
| "truthy (JNum (Finite r)) = (r \<noteq> 0)"
| "truthy (JNum NaN) = False"
| "truthy (JNum PosInfinity) = True"
| "truthy (JNum NegInfinity) = True"
| "truthy (JStr s) = (s \<noteq> [])"
| "truthy (JArr xs) = True"
| "truthy (JObj kvs) = True"
| "truthy JFun = True"

fun is_string :: "js_value \<Rightarrow> bool" where
  "is_string (JStr s) = True"
| "is_string v = False"

fun isArray :: "js_value \<Rightarrow> bool" where
  "isArray (JArr xs) = True"
| "isArray v = False"

text \<open>The \<open>length\<close> of a value that \<open>Array.isArray\<close> accepted.\<close>

fun array_length :: "js_value \<Rightarrow> nat" where
  "array_length (JArr xs) = length xs"
| "array_length v = 0"

text \<open>
  A property bag \<open>Record<string, unknown>\<close>; reading a key that is absent gives
  \<open>undefined\<close>.
\<close>

type_synonym props = "string \<rightharpoonup> js_value"

definition read_prop :: "props \<Rightarrow> string \<Rightarrow> js_value" where
  "read_prop p k = (case p k of None \<Rightarrow> JUndefined | Some v \<Rightarrow> v)"

text \<open>
  The \<open>order\<close> of a layout entry is declared a number and checked with \<open>typeof\<close>, so
  the model admits every primitive there. Equality of primitives is the key comparison of
  a \<open>Set\<close> (\<open>NaN\<close> equals itself).
\<close>

datatype js_prim = PUndefined | PNull | PBool bool | PNum js_number | PStr string

fun prim_value :: "js_prim \<Rightarrow> js_value" where
  "prim_value PUndefined = JUndefined"
| "prim_value PNull = JNull"
| "prim_value (PBool b) = JBool b"
| "prim_value (PNum n) = JNum n"
| "prim_value (PStr s) = JStr s"

text \<open>Numbers in decimal notation, as a template literal prints an integer.\<close>

definition digit_char :: "nat \<Rightarrow> char" where
  "digit_char d = ''0123456789'' ! d"

fun decimal :: "nat \<Rightarrow> string" where
  "decimal n = (if 10 \<le> n then decimal (n div 10) @ [digit_char (n mod 10)] else [digit_char n])"

declare decimal.simps [simp del]

definition signed_decimal :: "int \<Rightarrow> string" where
  "signed_decimal i = (if 0 \<le> i then decimal (nat i) else CHR ''-'' # decimal (nat (- i)))"

text \<open>
  Template literals print a value with the runtime's \<open>ToString\<close>. A string prints as
  itself, \<open>undefined\<close>, \<open>null\<close>, the booleans, \<open>NaN\<close> and the infinities by name, and
  an integer below \<open>2^53\<close> in magnitude by its decimal digits (from there on the runtime
  prints the shortest digits that read back as the same double, which are no longer the
  exact ones). The text of the other values (fractions, large numbers, arrays, objects,
  functions) is the runtime's business:
  the functions that build messages from untyped values take it as the parameter
  \<open>toStr\<close>.
\<close>

fun template :: "(js_value \<Rightarrow> string) \<Rightarrow> js_value \<Rightarrow> string" where
  "template toStr (JStr s) = s"
| "template toStr JUndefined = ''undefined''"
| "template toStr JNull = ''null''"
| "template toStr (JBool b) = (if b then ''true'' else ''false'')"
| "template toStr (JNum (Finite r)) =
     (if r = of_int \<lfloor>r\<rfloor> \<and> \<bar>r\<bar> < 2 ^ 53 then signed_decimal \<lfloor>r\<rfloor>
      else toStr (JNum (Finite r)))"
| "template toStr (JNum NaN) = ''NaN''"
| "template toStr (JNum PosInfinity) = ''Infinity''"
| "template toStr (JNum NegInfinity) = ''-Infinity''"
| "template toStr v = toStr v"

text \<open>A printer for the examples below, none of which reaches it with a number.\<close>

definition object_toString :: "js_value \<Rightarrow> string" where
  "object_toString v = ''[object Object]''"

section \<open>Portfolio types (types/portfolio.ts)\<close>

definition HERO_PRISM :: string where [enum_defs]: "HERO_PRISM = ''tool_hero_prism''"
definition HERO_TERMINAL :: string where [enum_defs]: "HERO_TERMINAL = ''tool_hero_terminal''"
definition EXP_TIMELINE :: string where [enum_defs]: "EXP_TIMELINE = ''tool_exp_timeline''"
definition EXP_MASONRY :: string where [enum_defs]: "EXP_MASONRY = ''tool_exp_masonry''"
definition SKILLS_DOTS :: string where [enum_defs]: "SKILLS_DOTS = ''tool_skills_dots''"
definition SKILLS_RADAR :: string where [enum_defs]: "SKILLS_RADAR = ''tool_skills_radar''"
definition STATS_BENTO :: string where [enum_defs]: "STATS_BENTO = ''tool_stats_bento''"

text \<open>\<open>Object.values(ComponentType)\<close>: the seven core identifiers.\<close>

definition ComponentType_values :: "string list" where
  "ComponentType_values =
    [HERO_PRISM, HERO_TERMINAL, EXP_TIMELINE, EXP_MASONRY, SKILLS_DOTS, SKILLS_RADAR,
     STATS_BENTO]"

text \<open>\<open>Object.values(HeroTheme)\<close>.\<close>

definition HeroTheme_values :: "string list" where
  "HeroTheme_values = [''ocean'', ''sunset'', ''forest'', ''matrix'', ''cyberpunk'', ''minimal'']"

text \<open>\<open>Object.values(HeroTheme).includes(v)\<close> compares with strict equality.\<close>

fun HeroTheme_includes :: "js_value \<Rightarrow> bool" where
  "HeroTheme_includes (JStr s) = (s \<in> set HeroTheme_values)"
| "HeroTheme_includes v = False"

record ComponentConfig =
  config_type :: string
  config_props :: props
  order :: js_prim

section \<open>Component registry (component-registry.ts)\<close>

text \<open>The renderers are opaque callables; a plugin's renderer is known by a handle.\<close>

datatype renderer =
    HeroPrism | HeroTerminal | ExpTimeline | ExpMasonry | SkillDots | SkillRadar | BentoGrid
  | PluginRenderer string

text \<open>
  A plugin record arrives unchecked and \<open>registerPlugin\<close> tests its metadata for
  \<open>requiredProps\<close>, so that field can be absent (\<open>None\<close>); an absent \<open>name\<close> or
  \<open>category\<close> is the empty string, which the checks treat alike.
\<close>

record ComponentMetadata =
  name :: string
  description :: string
  category :: string
  requiredProps :: "string list option"
  optionalProps :: "string list"

record ValidationResult =
  valid :: bool
  errors :: "string list"
  warnings :: "string list"

type_synonym validator = "props \<Rightarrow> ValidationResult"

text \<open>
  The fields of an entry are the values of property reads (\<open>COMPONENT_MAP[type]\<close>,
  \<open>plugin.component\<close>), so each can be \<open>undefined\<close>.
\<close>

record RegistryEntry =
  component :: "renderer option"
  metadata :: "ComponentMetadata option"
  validateProps :: "validator option"

definition isValidComponentType :: "string \<Rightarrow> bool" where
  "isValidComponentType t = (t \<in> set ComponentType_values)"

text \<open>
  The validators push onto \<open>errors\<close> and \<open>warnings\<close> in source order and return
  \<open>valid: errors.length === 0\<close>.
\<close>

definition result_of :: "string list \<Rightarrow> string list \<Rightarrow> ValidationResult" where
  "result_of es ws = \<lparr>valid = (length es = 0), errors = es, warnings = ws\<rparr>"

definition missing_string :: "props \<Rightarrow> string \<Rightarrow> bool" where
  "missing_string p k = (\<not> truthy (read_prop p k) \<or> \<not> is_string (read_prop p k))"

definition missing_array :: "props \<Rightarrow> string \<Rightarrow> bool" where
  "missing_array p k = (\<not> truthy (read_prop p k) \<or> \<not> isArray (read_prop p k))"

definition theme_warning :: "(js_value \<Rightarrow> string) \<Rightarrow> props \<Rightarrow> string \<Rightarrow> string list" where
  "theme_warning toStr p dflt =
    (if truthy (read_prop p ''theme'') \<and> \<not> HeroTheme_includes (read_prop p ''theme'')
     then [''Invalid theme '' @ [CHR 0x27] @ template toStr (read_prop p ''theme'') @ [CHR 0x27]
           @ '', will use default '' @ [CHR 0x27] @ dflt @ [CHR 0x27]]
     else [])"

definition validate_HERO_PRISM :: "(js_value \<Rightarrow> string) \<Rightarrow> validator" where
  "validate_HERO_PRISM toStr p =
    result_of
      ((if missing_string p ''name''
        then [''HeroPrism requires '' @ [CHR 0x27] @ ''name'' @ [CHR 0x27] @ '' prop of type string'']
        else [])
       @ (if missing_string p ''title''
          then [''HeroPrism requires '' @ [CHR 0x27] @ ''title'' @ [CHR 0x27] @ '' prop of type string'']
          else []))
      (theme_warning toStr p ''ocean'')"

definition validate_HERO_TERMINAL :: "(js_value \<Rightarrow> string) \<Rightarrow> validator" where
  "validate_HERO_TERMINAL toStr p =
    result_of
      ((if missing_string p ''name''
        then [''HeroTerminal requires '' @ [CHR 0x27] @ ''name'' @ [CHR 0x27] @ '' prop of type string'']
        else [])
       @ (if missing_string p ''title''
          then [''HeroTerminal requires '' @ [CHR 0x27] @ ''title'' @ [CHR 0x27] @ '' prop of type string'']
          else [])
       @ (if missing_array p ''commands''
          then [''HeroTerminal requires '' @ [CHR 0x27] @ ''commands'' @ [CHR 0x27] @ '' prop of type string[]'']
          else []))
      (theme_warning toStr p ''matrix'')"

text \<open>
  The list validators share one shape: an error when the list is missing or not an array,
  else a warning when it is empty.
\<close>

definition validate_list :: "string \<Rightarrow> string \<Rightarrow> string \<Rightarrow> validator" where
  "validate_list who key elem p =
    (if missing_array p key
     then result_of
            [who @ '' requires '' @ [CHR 0x27] @ key @ [CHR 0x27] @ '' prop of type '' @ elem @ ''[]'']
            []
     else if array_length (read_prop p key) = 0
     then result_of [] [who @ '' received empty '' @ key @ '' array'']
     else result_of [] [])"

definition validate_SKILLS_RADAR :: validator where
  "validate_SKILLS_RADAR p =
    (if missing_array p ''skills''
     then result_of
            [''SkillRadar requires '' @ [CHR 0x27] @ ''skills'' @ [CHR 0x27] @ '' prop of type Skill[]'']
            []
     else if array_length (read_prop p ''skills'') = 0
     then result_of [] [''SkillRadar received empty skills array'']
     else if array_length (read_prop p ''skills'') < 3
     then result_of []
            [''SkillRadar works best with at least 3 skills for radar visualization'']
     else result_of [] [])"

text \<open>The three tables keyed by \<open>ComponentType\<close>, in the order they are written.\<close>

definition propValidators :: "(js_value \<Rightarrow> string) \<Rightarrow> (string \<times> validator) list" where
  "propValidators toStr =
    [(HERO_PRISM, validate_HERO_PRISM toStr),
     (HERO_TERMINAL, validate_HERO_TERMINAL toStr),
     (EXP_TIMELINE, validate_list ''ExpTimeline'' ''experiences'' ''Experience''),
     (EXP_MASONRY, validate_list ''ExpMasonry'' ''experiences'' ''Experience''),
     (SKILLS_DOTS, validate_list ''SkillDots'' ''skills'' ''Skill''),
     (SKILLS_RADAR, validate_SKILLS_RADAR),
     (STATS_BENTO, validate_list ''BentoGrid'' ''achievements'' ''Achievement'')]"

definition componentMetadata :: "(string \<times> ComponentMetadata) list" where
  "componentMetadata =
    [(HERO_PRISM,
       \<lparr>name = ''HeroPrism'',
        description = ''Liquid glass hero section with interactive cursor effects'',
        category = ''hero'', requiredProps = Some [''name'', ''title''],
        optionalProps = [''theme'', ''subtitle'', ''contact'']\<rparr>),
     (HERO_TERMINAL,
       \<lparr>name = ''HeroTerminal'',
        description = ''Terminal-style hero section with typewriter effects'',
        category = ''hero'', requiredProps = Some [''name'', ''title'', ''commands''],
        optionalProps = [''theme'']\<rparr>),
     (EXP_TIMELINE,
       \<lparr>name = ''ExpTimeline'',
        description = ''Vertical timeline layout with connected experience cards'',
        category = ''experience'', requiredProps = Some [''experiences''],
        optionalProps = [''theme'']\<rparr>),
     (EXP_MASONRY,
       \<lparr>name = ''ExpMasonry'',
        description = ''Staggered grid layout for creative portfolios'',
        category = ''experience'', requiredProps = Some [''experiences''],
        optionalProps = [''projects'', ''theme'']\<rparr>),
     (SKILLS_DOTS,
       \<lparr>name = ''SkillDots'',
        description = ''1-5 glowing neon dot skill indicators'',
        category = ''skills'', requiredProps = Some [''skills''],
        optionalProps = [''maxLevel'', ''theme'']\<rparr>),
     (SKILLS_RADAR,
       \<lparr>name = ''SkillRadar'',
        description = ''Hexagonal spider chart for comprehensive skills'',
        category = ''skills'', requiredProps = Some [''skills''],
        optionalProps = [''theme'']\<rparr>),
     (STATS_BENTO,
       \<lparr>name = ''BentoGrid'',
        description = ''Achievement statistics in bento box layout'',
        category = ''stats'', requiredProps = Some [''achievements''],
        optionalProps = [''theme'']\<rparr>)]"

definition COMPONENT_MAP :: "(string \<times> renderer) list" where
  "COMPONENT_MAP =
    [(HERO_PRISM, HeroPrism), (HERO_TERMINAL, HeroTerminal), (EXP_TIMELINE, ExpTimeline),
     (EXP_MASONRY, ExpMasonry), (SKILLS_DOTS, SkillDots), (SKILLS_RADAR, SkillRadar),
     (STATS_BENTO, BentoGrid)]"

subsection \<open>The \<open>ComponentRegistry\<close> class\<close>

text \<open>
  \<open>initializeRegistry\<close>: one \<open>registry.set\<close> per value of the enum. The map is
  private and no method writes to it afterwards, so it is a constant of the model.
\<close>

definition initializeRegistry :: "(js_value \<Rightarrow> string) \<Rightarrow> (string \<times> RegistryEntry) list" where
  "initializeRegistry toStr =
    foldl (\<lambda>registry t.
             Map_set t
               \<lparr>component = map_of COMPONENT_MAP t,
                metadata = map_of componentMetadata t,
                validateProps = map_of (propValidators toStr) t\<rparr>
               registry)
          [] ComponentType_values"

text \<open>Calling a property that is \<open>undefined\<close> throws.\<close>

datatype js_error = TypeError

definition CR_getComponent :: "(js_value \<Rightarrow> string) \<Rightarrow> string \<Rightarrow> renderer option" where
  "CR_getComponent toStr t =
    (if \<not> isValidComponentType t then None
     else case Map_get (initializeRegistry toStr) t of
            None \<Rightarrow> None
          | Some entry \<Rightarrow> component entry)"

definition CR_getMetadata :: "(js_value \<Rightarrow> string) \<Rightarrow> string \<Rightarrow> ComponentMetadata option" where
  "CR_getMetadata toStr t =
    (if \<not> isValidComponentType t then None
     else case Map_get (initializeRegistry toStr) t of
            None \<Rightarrow> None
          | Some entry \<Rightarrow> metadata entry)"

definition CR_validateProps ::
  "(js_value \<Rightarrow> string) \<Rightarrow> string \<Rightarrow> props \<Rightarrow> js_error + ValidationResult" where
  "CR_validateProps toStr t p =
    (if \<not> isValidComponentType t
     then Inr \<lparr>valid = False, errors = [''Unknown component type: '' @ t], warnings = []\<rparr>
     else case Map_get (initializeRegistry toStr) t of
            None \<Rightarrow>
              Inr \<lparr>valid = False, errors = [''Component not found in registry: '' @ t],
                   warnings = []\<rparr>
          | Some entry \<Rightarrow>
              (case validateProps entry of
                 None \<Rightarrow> Inl TypeError
               | Some v \<Rightarrow> Inr (v p)))"

definition CR_hasComponent :: "(js_value \<Rightarrow> string) \<Rightarrow> string \<Rightarrow> bool" where
  "CR_hasComponent toStr t = (isValidComponentType t \<and> Map_has (initializeRegistry toStr) t)"







definition duplicate_order_warning :: "(js_value \<Rightarrow> string) \<Rightarrow> js_prim \<Rightarrow> string" where
  "duplicate_order_warning toStr ord =
    ''Duplicate order value '' @ template toStr (prim_value ord) @ '' found''"




definition FALLBACK_COMPONENTS :: "(string \<times> string) list" where
  "FALLBACK_COMPONENTS =
    [(''hero'', HERO_PRISM), (''experience'', EXP_TIMELINE), (''skills'', SKILLS_DOTS),
     (''stats'', STATS_BENTO)]"

text \<open>The closed set of categories, \<open>ComponentMetadata["category"]\<close>.\<close>

definition categories :: "string list" where
  "categories = [''hero'', ''experience'', ''skills'', ''stats'']"


section \<open>Plugin system (component-plugin-system.ts)\<close>

record ToolDefinition =
  tool_name :: string
  tool_description :: string
  tool_parameters :: js_value

record PluginConfig =
  enabled :: bool
  priority :: js_number
  settings :: "string \<rightharpoonup> js_value"

record PartialPluginConfig =
  upd_enabled :: "bool option"
  upd_priority :: "js_number option"
  upd_settings :: "(string \<rightharpoonup> js_value) option"

text \<open>
  A lifecycle hook is a callback of the plugin's author. The model keeps what the manager
  can observe of a call: it returns, or it throws a value that prints as the given text.
\<close>

datatype hook = Returns | Throws string

record PluginLifecycleHooks =
  onRegister :: "hook option"
  onUnregister :: "hook option"
  beforeRender :: "(props \<Rightarrow> string + props) option"

text \<open>
  \<open>ExtendedComponentPlugin\<close> as it reaches \<open>registerPlugin\<close>: any field can be
  missing. An \<open>id\<close> of \<open>None\<close> is \<open>null\<close> or \<open>undefined\<close>; a component or a
  validator of \<open>None\<close> is missing or not a function.
\<close>

record Plugin =
  plugin_id :: "string option"
  plugin_component :: "renderer option"
  plugin_metadata :: "ComponentMetadata option"
  plugin_validateProps :: "validator option"
  plugin_toolDefinition :: "ToolDefinition option"
  plugin_hooks :: "PluginLifecycleHooks option"
  plugin_config :: "PluginConfig option"

record RegistrationResult =
  success :: bool
  reg_errors :: "string list"
  reg_warnings :: "string list"

record PluginRegistrationResult = RegistrationResult +
  pluginId :: string

record ComponentAvailabilityConfig =
  enabledComponents :: "string list"
  avail_disabledComponents :: "string list"
  categoryDefaults :: "string \<rightharpoonup> string"
  priorityOverrides :: "string \<rightharpoonup> js_number"

record PluginManager =
  plugins :: "(string \<times> Plugin) list"
  configs :: "(string \<times> PluginConfig) list"
  availabilityConfig :: ComponentAvailabilityConfig

definition new_PluginManager :: PluginManager where
  "new_PluginManager =
    \<lparr>plugins = [], configs = [],
     availabilityConfig =
       \<lparr>enabledComponents = [], avail_disabledComponents = [],
        categoryDefaults = Map.empty, priorityOverrides = Map.empty\<rparr>\<rparr>"

text \<open>The structural checks of \<open>registerPlugin\<close>, in source order.\<close>

definition structure_errors :: "Plugin \<Rightarrow> string list" where
  "structure_errors plugin =
    (case plugin_id plugin of
       None \<Rightarrow> [''Plugin must have a valid string id'']
     | Some i \<Rightarrow> (if i = [] then [''Plugin must have a valid string id''] else []))
    @ (case plugin_component plugin of
         None \<Rightarrow> [''Plugin must have a valid React component'']
       | Some c \<Rightarrow> [])
    @ (case plugin_metadata plugin of
         None \<Rightarrow> [''Plugin must have metadata'']
       | Some m \<Rightarrow>
           (if name m = [] then [''Plugin metadata must have a name''] else [])
           @ (if category m = [] then [''Plugin metadata must have a category''] else [])
           @ (case requiredProps m of
                None \<Rightarrow> [''Plugin metadata must have requiredProps'']
              | Some r \<Rightarrow> []))
    @ (case plugin_validateProps plugin of
         None \<Rightarrow> [''Plugin must have a validateProps function'']
       | Some v \<Rightarrow> [])"

text \<open>\<open>this.plugins.has(plugin.id)\<close>: the keys are strings, so a missing id is not one.\<close>

definition duplicate_warning :: "PluginManager \<Rightarrow> Plugin \<Rightarrow> string list" where
  "duplicate_warning pm plugin =
    (case plugin_id plugin of
       None \<Rightarrow> []
     | Some i \<Rightarrow>
         (if Map_has (plugins pm) i
          then [''Plugin '' @ i @ '' already registered, will be overwritten'']
          else []))"

definition default_PluginConfig :: PluginConfig where
  "default_PluginConfig = \<lparr>enabled = True, priority = Finite 0, settings = Map.empty\<rparr>"

definition onRegister_warning :: "Plugin \<Rightarrow> string list" where
  "onRegister_warning plugin =
    (case plugin_hooks plugin of
       None \<Rightarrow> []
     | Some h \<Rightarrow>
         (case onRegister h of
            None \<Rightarrow> []
          | Some Returns \<Rightarrow> []
          | Some (Throws err) \<Rightarrow> [''onRegister hook failed: '' @ err]))"

definition PM_registerPlugin ::
  "Plugin \<Rightarrow> PluginManager \<Rightarrow> PluginRegistrationResult \<times> PluginManager" where
  "PM_registerPlugin plugin pm =
    (let es = structure_errors plugin;
         ws = duplicate_warning pm plugin
     in if length es > 0
        then (\<lparr>success = False, reg_errors = es, reg_warnings = ws,
               pluginId = (case plugin_id plugin of
                             None \<Rightarrow> ''unknown''
                           | Some i \<Rightarrow> (if i = [] then ''unknown'' else i))\<rparr>,
              pm)
        else (case plugin_id plugin of
                None \<Rightarrow> \<comment> \<open>not reached: without errors the id is a non-empty string\<close>
                  (\<lparr>success = False, reg_errors = es, reg_warnings = ws, pluginId = ''unknown''\<rparr>,
                   pm)
              | Some i \<Rightarrow>
                  (\<lparr>success = True, reg_errors = [], reg_warnings = ws @ onRegister_warning plugin,
                    pluginId = i\<rparr>,
                   pm\<lparr>plugins := Map_set i plugin (plugins pm),
                      configs :=
                        (if \<not> Map_has (configs pm) i
                         then Map_set i
                                (case plugin_config plugin of
                                   None \<Rightarrow> default_PluginConfig
                                 | Some c \<Rightarrow> c)
                                (configs pm)
                         else configs pm)\<rparr>)))"

text \<open>
  \<open>unregisterPlugin\<close>: the \<open>onUnregister\<close> hook is called inside \<open>try\<close> and its
  failure only reaches the console, so it leaves no trace in the manager.
\<close>

definition PM_unregisterPlugin :: "string \<Rightarrow> PluginManager \<Rightarrow> bool \<times> PluginManager" where
  "PM_unregisterPlugin pluginId' pm =
    (case Map_get (plugins pm) pluginId' of
       None \<Rightarrow> (False, pm)
     | Some plugin \<Rightarrow>
         (True, pm\<lparr>plugins := Map_delete pluginId' (plugins pm),
                   configs := Map_delete pluginId' (configs pm)\<rparr>))"

definition PM_hasPlugin :: "PluginManager \<Rightarrow> string \<Rightarrow> bool" where
  "PM_hasPlugin pm pluginId' = Map_has (plugins pm) pluginId'"

definition PM_updatePluginConfig ::
  "string \<Rightarrow> PartialPluginConfig \<Rightarrow> PluginManager \<Rightarrow> bool \<times> PluginManager" where
  "PM_updatePluginConfig pluginId' config pm =
    (case Map_get (configs pm) pluginId' of
       None \<Rightarrow> (False, pm)
     | Some existingConfig \<Rightarrow>
         (True,
          pm\<lparr>configs :=
               Map_set pluginId'
                 \<lparr>enabled = (case upd_enabled config of
                               None \<Rightarrow> enabled existingConfig | Some b \<Rightarrow> b),
                  priority = (case upd_priority config of
                                None \<Rightarrow> priority existingConfig | Some n \<Rightarrow> n),
                  settings = settings existingConfig
                             ++ (case upd_settings config of
                                   None \<Rightarrow> Map.empty | Some m \<Rightarrow> m)\<rparr>
                 (configs pm)\<rparr>))"

definition PM_enablePlugin :: "string \<Rightarrow> PluginManager \<Rightarrow> bool \<times> PluginManager" where
  "PM_enablePlugin pluginId' pm =
    PM_updatePluginConfig pluginId'
      \<lparr>upd_enabled = Some True, upd_priority = None, upd_settings = None\<rparr> pm"

definition PM_disablePlugin :: "string \<Rightarrow> PluginManager \<Rightarrow> bool \<times> PluginManager" where
  "PM_disablePlugin pluginId' pm =
    PM_updatePluginConfig pluginId'
      \<lparr>upd_enabled = Some False, upd_priority = None, upd_settings = None\<rparr> pm"

text \<open>\<open>config?.enabled ?? false\<close>.\<close>

definition PM_isPluginEnabled :: "PluginManager \<Rightarrow> string \<Rightarrow> bool" where
  "PM_isPluginEnabled pm pluginId' =
    (case Map_get (configs pm) pluginId' of None \<Rightarrow> False | Some config \<Rightarrow> enabled config)"

text \<open>
  \<open>categoryDefaults\<close> is a plain object, so reading a key it does not own reaches
  \<open>Object.prototype\<close>: for the names below the read gives an inherited member (a
  function, or the prototype itself for \<open>__proto__\<close>), which is truthy and is not a
  string.
\<close>

definition Object_prototype_keys :: "string list" where
  "Object_prototype_keys =
    [''constructor'', ''__defineGetter__'', ''__defineSetter__'', ''hasOwnProperty'',
     ''__lookupGetter__'', ''__lookupSetter__'', ''isPrototypeOf'', ''propertyIsEnumerable'',
     ''toString'', ''valueOf'', ''__proto__'', ''toLocaleString'']"

datatype property_read = Undefined | OwnString string | InheritedMember

definition PM_getCategoryDefault :: "PluginManager \<Rightarrow> string \<Rightarrow> property_read" where
  "PM_getCategoryDefault pm cat =
    (case categoryDefaults (availabilityConfig pm) cat of
       Some componentId \<Rightarrow> OwnString componentId
     | None \<Rightarrow> (if cat \<in> set Object_prototype_keys then InheritedMember else Undefined))"

text \<open>
  Assigning a string to \<open>__proto__\<close> runs the inherited setter, which ignores a value
  that is not an object: no own property is created.
\<close>

definition PM_setCategoryDefault :: "string \<Rightarrow> string \<Rightarrow> PluginManager \<Rightarrow> PluginManager" where
  "PM_setCategoryDefault cat componentId pm =
    (if cat = ''__proto__'' then pm
     else pm\<lparr>availabilityConfig :=
              (availabilityConfig pm)
                \<lparr>categoryDefaults :=
                   (categoryDefaults (availabilityConfig pm))(cat \<mapsto> componentId)\<rparr>\<rparr>)"

text \<open>
  \<open>validatePluginProps\<close>: a missing plugin is a result, a throwing \<open>beforeRender\<close>
  hook is a result, and the plugin's own validator decides the rest.
\<close>

definition PM_validatePluginProps ::
  "PluginManager \<Rightarrow> string \<Rightarrow> props \<Rightarrow> js_error + ValidationResult" where
  "PM_validatePluginProps pm pluginId' p =
    (case Map_get (plugins pm) pluginId' of
       None \<Rightarrow>
         Inr \<lparr>valid = False, errors = [''Plugin not found: '' @ pluginId'], warnings = []\<rparr>
     | Some plugin \<Rightarrow>
         (case (case Option.bind (plugin_hooks plugin) beforeRender of
                  None \<Rightarrow> Inr p
                | Some hook \<Rightarrow> hook p) of
            Inl err \<Rightarrow>
              Inr \<lparr>valid = False, errors = [''beforeRender hook failed: '' @ err],
                   warnings = []\<rparr>
          | Inr processedProps \<Rightarrow>
              (case plugin_validateProps plugin of
                 None \<Rightarrow> Inl TypeError
               | Some v \<Rightarrow> Inr (v processedProps))))"

definition PM_getPluginCount :: "PluginManager \<Rightarrow> nat" where
  "PM_getPluginCount pm = Map_size (plugins pm)"

section \<open>Configuration manager (component-config-manager.ts)\<close>

record ComponentSettings =
  animationsEnabled :: bool
  animationDuration :: js_number
  showTooltips :: bool
  customClasses :: "string list"
  themeOverrides :: "string \<rightharpoonup> string"
  featureFlags :: "string \<rightharpoonup> bool"

text \<open>\<open>Partial<ComponentSettings>\<close>: every field is optional.\<close>

record PartialComponentSettings =
  ov_animationsEnabled :: "bool option"
  ov_animationDuration :: "js_number option"
  ov_showTooltips :: "bool option"
  ov_customClasses :: "string list option"
  ov_themeOverrides :: "(string \<rightharpoonup> string) option"
  ov_featureFlags :: "(string \<rightharpoonup> bool) option"

definition no_overrides :: PartialComponentSettings where
  "no_overrides =
    \<lparr>ov_animationsEnabled = None, ov_animationDuration = None, ov_showTooltips = None,
     ov_customClasses = None, ov_themeOverrides = None, ov_featureFlags = None\<rparr>"

record GlobalComponentConfig =
  defaultSettings :: ComponentSettings
  componentOverrides :: "string \<rightharpoonup> PartialComponentSettings"
  disabledComponents :: "string list"
  maxComponentsPerLayout :: nat
  allowCustomComponents :: bool
  debugMode :: bool

record PartialGlobalComponentConfig =
  upd_defaultSettings :: "ComponentSettings option"
  upd_componentOverrides :: "(string \<rightharpoonup> PartialComponentSettings) option"
  upd_disabledComponents :: "string list option"
  upd_maxComponentsPerLayout :: "nat option"
  upd_allowCustomComponents :: "bool option"
  upd_debugMode :: "bool option"

definition DEFAULT_SETTINGS :: ComponentSettings where
  "DEFAULT_SETTINGS =
    \<lparr>animationsEnabled = True, animationDuration = Finite 300, showTooltips = True,
     customClasses = [], themeOverrides = Map.empty, featureFlags = Map.empty\<rparr>"

definition DEFAULT_GLOBAL_CONFIG :: GlobalComponentConfig where
  "DEFAULT_GLOBAL_CONFIG =
    \<lparr>defaultSettings = DEFAULT_SETTINGS, componentOverrides = Map.empty,
     disabledComponents = [], maxComponentsPerLayout = 10, allowCustomComponents = True,
     debugMode = False\<rparr>"

text \<open>
  A change event, without the values and the timestamp it also carries: its type and the
  identifier it is about.
\<close>

datatype ConfigChangeType = global_change | component_change | availability_change

record ConfigChangeEvent =
  event_type :: ConfigChangeType
  event_componentId :: "string option"

text \<open>
  The manager's configuration and its change history. The change listeners are callbacks
  of other modules; they are called by \<open>emitChange\<close> and a failure is caught there, so
  they do not show in this state.
\<close>

record ComponentConfigManager =
  globalConfig :: GlobalComponentConfig
  configHistory :: "ConfigChangeEvent list"

definition maxHistorySize :: nat where
  "maxHistorySize = 100"

text \<open>The state of the first manager a process constructs.\<close>

definition new_ComponentConfigManager :: ComponentConfigManager where
  "new_ComponentConfigManager = \<lparr>globalConfig = DEFAULT_GLOBAL_CONFIG, configHistory = []\<rparr>"

text \<open>\<open>emitChange\<close>: push, then drop the oldest event when the history is over its size.\<close>

definition emitChange :: "ConfigChangeEvent \<Rightarrow> ComponentConfigManager \<Rightarrow> ComponentConfigManager" where
  "emitChange event cm =
    (let h = configHistory cm @ [event]
     in cm\<lparr>configHistory := (if length h > maxHistorySize then tl h else h)\<rparr>)"

definition CCM_getGlobalConfig :: "ComponentConfigManager \<Rightarrow> GlobalComponentConfig" where
  "CCM_getGlobalConfig cm = globalConfig cm"

definition CCM_updateGlobalConfig ::
  "PartialGlobalComponentConfig \<Rightarrow> ComponentConfigManager \<Rightarrow> ComponentConfigManager" where
  "CCM_updateGlobalConfig config cm =
    (let g = globalConfig cm in
     emitChange \<lparr>event_type = global_change, event_componentId = None\<rparr>
       (cm\<lparr>globalConfig :=
             \<lparr>defaultSettings =
                (case upd_defaultSettings config of None \<Rightarrow> defaultSettings g | Some d \<Rightarrow> d),
              componentOverrides =
                componentOverrides g
                ++ (case upd_componentOverrides config of None \<Rightarrow> Map.empty | Some m \<Rightarrow> m),
              disabledComponents =
                (case upd_disabledComponents config of
                   None \<Rightarrow> disabledComponents g | Some d \<Rightarrow> d),
              maxComponentsPerLayout =
                (case upd_maxComponentsPerLayout config of
                   None \<Rightarrow> maxComponentsPerLayout g | Some n \<Rightarrow> n),
              allowCustomComponents =
                (case upd_allowCustomComponents config of
                   None \<Rightarrow> allowCustomComponents g | Some b \<Rightarrow> b),
              debugMode =
                (case upd_debugMode config of None \<Rightarrow> debugMode g | Some b \<Rightarrow> b)\<rparr>\<rparr>))"


text \<open>The spread \<open>{...old, ...settings}\<close> of two partial settings: a present field wins.\<close>

definition spread_partial ::
  "PartialComponentSettings \<Rightarrow> PartialComponentSettings \<Rightarrow> PartialComponentSettings" where
  "spread_partial old new =
    \<lparr>ov_animationsEnabled =
       (case ov_animationsEnabled new of None \<Rightarrow> ov_animationsEnabled old | Some b \<Rightarrow> Some b),
     ov_animationDuration =
       (case ov_animationDuration new of None \<Rightarrow> ov_animationDuration old | Some n \<Rightarrow> Some n),
     ov_showTooltips =
       (case ov_showTooltips new of None \<Rightarrow> ov_showTooltips old | Some b \<Rightarrow> Some b),
     ov_customClasses =
       (case ov_customClasses new of None \<Rightarrow> ov_customClasses old | Some c \<Rightarrow> Some c),
     ov_themeOverrides =
       (case ov_themeOverrides new of None \<Rightarrow> ov_themeOverrides old | Some m \<Rightarrow> Some m),
     ov_featureFlags =
       (case ov_featureFlags new of None \<Rightarrow> ov_featureFlags old | Some m \<Rightarrow> Some m)\<rparr>"

definition CCM_updateComponentSettings ::
  "string \<Rightarrow> PartialComponentSettings \<Rightarrow> ComponentConfigManager \<Rightarrow> ComponentConfigManager" where
  "CCM_updateComponentSettings componentId new_settings cm =
    (let g = globalConfig cm;
         old = (case componentOverrides g componentId of None \<Rightarrow> no_overrides | Some ov \<Rightarrow> ov)
     in emitChange \<lparr>event_type = component_change, event_componentId = Some componentId\<rparr>
          (cm\<lparr>globalConfig :=
                g\<lparr>componentOverrides :=
                    (componentOverrides g)(componentId \<mapsto> spread_partial old new_settings)\<rparr>\<rparr>))"

definition CCM_isComponentDisabled :: "ComponentConfigManager \<Rightarrow> string \<Rightarrow> bool" where
  "CCM_isComponentDisabled cm componentId =
    (componentId \<in> set (disabledComponents (globalConfig cm)))"

definition CCM_disableComponent :: "string \<Rightarrow> ComponentConfigManager \<Rightarrow> ComponentConfigManager" where
  "CCM_disableComponent componentId cm =
    (if componentId \<notin> set (disabledComponents (globalConfig cm))
     then emitChange \<lparr>event_type = availability_change, event_componentId = Some componentId\<rparr>
            (cm\<lparr>globalConfig :=
                  (globalConfig cm)
                    \<lparr>disabledComponents := disabledComponents (globalConfig cm) @ [componentId]\<rparr>\<rparr>)
     else cm)"

text \<open>\<open>enableComponent\<close> splices out the first occurrence found by \<open>indexOf\<close>.\<close>

definition CCM_enableComponent :: "string \<Rightarrow> ComponentConfigManager \<Rightarrow> ComponentConfigManager" where
  "CCM_enableComponent componentId cm =
    (if componentId \<in> set (disabledComponents (globalConfig cm))
     then emitChange \<lparr>event_type = availability_change, event_componentId = Some componentId\<rparr>
            (cm\<lparr>globalConfig :=
                  (globalConfig cm)
                    \<lparr>disabledComponents := remove1 componentId (disabledComponents (globalConfig cm))\<rparr>\<rparr>)
     else cm)"

section \<open>Extensible registry (extensible-registry.ts)\<close>

record ExtendedRegistryEntry = RegistryEntry +
  isPlugin :: bool
  entry_pluginId :: "string option"
  toolDefinition :: "ToolDefinition option"

text \<open>The provenance tags \<open>"core"\<close>, \<open>"plugin"\<close> and \<open>"not_found"\<close>.\<close>

datatype lookup_source = from_core | from_plugin | not_found

record ComponentLookupResult =
  lookup_component :: "renderer option"
  lookup_metadata :: "ComponentMetadata option"
  lookup_isPlugin :: bool
  isEnabled :: bool
  source :: lookup_source

text \<open>
  The registry holds the plugin manager and the configuration manager (the process-wide
  instances, which callers can also reach through \<open>getPluginManager\<close> and
  \<open>getConfigManager\<close>) and its own map of custom components. The core registry is the
  constant \<open>initializeRegistry\<close>.
\<close>

record ExtensibleComponentRegistry =
  pluginManager :: PluginManager
  configManager :: ComponentConfigManager
  customComponents :: "(string \<times> ExtendedRegistryEntry) list"

definition new_ExtensibleComponentRegistry :: ExtensibleComponentRegistry where
  "new_ExtensibleComponentRegistry =
    \<lparr>pluginManager = new_PluginManager, configManager = new_ComponentConfigManager,
     customComponents = []\<rparr>"

definition ECR_isCoreComponent :: "string \<Rightarrow> bool" where
  "ECR_isCoreComponent componentId = (componentId \<in> set ComponentType_values)"

definition ECR_registerComponent ::
  "Plugin \<Rightarrow> ExtensibleComponentRegistry \<Rightarrow> RegistrationResult \<times> ExtensibleComponentRegistry" where
  "ECR_registerComponent plugin r =
    (if \<not> allowCustomComponents (CCM_getGlobalConfig (configManager r))
     then (\<lparr>success = False,
            reg_errors = [''Custom components are not allowed in current configuration''],
            reg_warnings = []\<rparr>,
           r)
     else (case PM_registerPlugin plugin (pluginManager r) of
             (result, pm') \<Rightarrow>
               (\<lparr>success = success result, reg_errors = reg_errors result,
                 reg_warnings = reg_warnings result\<rparr>,
                r\<lparr>pluginManager := pm',
                  customComponents :=
                    (case (success result, plugin_id plugin) of
                       (True, Some i) \<Rightarrow>
                         Map_set i
                           \<lparr>component = plugin_component plugin,
                            metadata = plugin_metadata plugin,
                            validateProps = plugin_validateProps plugin,
                            isPlugin = True,
                            entry_pluginId = plugin_id plugin,
                            toolDefinition = plugin_toolDefinition plugin\<rparr>
                           (customComponents r)
                     | _ \<Rightarrow> customComponents r)\<rparr>)))"

definition ECR_unregisterComponent ::
  "string \<Rightarrow> ExtensibleComponentRegistry \<Rightarrow> bool \<times> ExtensibleComponentRegistry" where
  "ECR_unregisterComponent componentId r =
    (if ECR_isCoreComponent componentId then (False, r)
     else (case PM_unregisterPlugin componentId (pluginManager r) of
             (removed, pm') \<Rightarrow>
               (removed,
                r\<lparr>pluginManager := pm',
                  customComponents :=
                    (if removed then Map_delete componentId (customComponents r)
                     else customComponents r)\<rparr>)))"

definition ECR_getComponent ::
  "(js_value \<Rightarrow> string) \<Rightarrow> ExtensibleComponentRegistry \<Rightarrow> string \<Rightarrow> ComponentLookupResult" where
  "ECR_getComponent toStr r componentId =
    (let is_enabled = \<not> CCM_isComponentDisabled (configManager r) componentId in
     if ECR_isCoreComponent componentId
     then \<lparr>lookup_component = CR_getComponent toStr componentId,
           lookup_metadata = CR_getMetadata toStr componentId,
           lookup_isPlugin = False, isEnabled = is_enabled, source = from_core\<rparr>
     else (case Map_get (customComponents r) componentId of
             Some customEntry \<Rightarrow>
               \<lparr>lookup_component = component customEntry,
                lookup_metadata = metadata customEntry,
                lookup_isPlugin = True,
                isEnabled = (is_enabled \<and> PM_isPluginEnabled (pluginManager r) componentId),
                source = from_plugin\<rparr>
           | None \<Rightarrow>
               \<lparr>lookup_component = None, lookup_metadata = None, lookup_isPlugin = False,
                isEnabled = False, source = not_found\<rparr>))"

definition ECR_validateProps ::
  "(js_value \<Rightarrow> string) \<Rightarrow> ExtensibleComponentRegistry \<Rightarrow> string \<Rightarrow> props
   \<Rightarrow> js_error + ValidationResult" where
  "ECR_validateProps toStr r componentId p =
    (if ECR_isCoreComponent componentId then CR_validateProps toStr componentId p
     else PM_validatePluginProps (pluginManager r) componentId p)"

text \<open>
  \<open>getFallbackComponent\<close>: a custom category default that resolves to an enabled
  component wins; else the core fallback of the category, unless it is disabled. An
  inherited member read as the category default is truthy, but \<open>getComponent\<close> finds
  nothing under a key that is not a string, so the core fallback is tried.
\<close>

definition ECR_getFallbackComponent ::
  "(js_value \<Rightarrow> string) \<Rightarrow> ExtensibleComponentRegistry \<Rightarrow> string \<Rightarrow> renderer option" where
  "ECR_getFallbackComponent toStr r cat =
    (let custom =
           (case PM_getCategoryDefault (pluginManager r) cat of
              Undefined \<Rightarrow> None
            | InheritedMember \<Rightarrow> None
            | OwnString customDefault \<Rightarrow>
                (if customDefault = [] then None
                 else (let lookup = ECR_getComponent toStr r customDefault in
                       if lookup_component lookup \<noteq> None \<and> isEnabled lookup
                       then lookup_component lookup else None)))
     in case custom of
          Some c \<Rightarrow> Some c
        | None \<Rightarrow>
            (case map_of FALLBACK_COMPONENTS cat of
               None \<Rightarrow> None
             | Some fallbackType \<Rightarrow>
                 (if fallbackType \<noteq> []
                     \<and> \<not> CCM_isComponentDisabled (configManager r) fallbackType
                  then map_of COMPONENT_MAP fallbackType
                  else None)))"

definition ECR_hasComponent :: "(js_value \<Rightarrow> string) \<Rightarrow> ExtensibleComponentRegistry \<Rightarrow> string \<Rightarrow> bool" where
  "ECR_hasComponent toStr r componentId =
    (if ECR_isCoreComponent componentId then CR_hasComponent toStr componentId
     else Map_has (customComponents r) componentId)"

definition ECR_enableComponent ::
  "string \<Rightarrow> ExtensibleComponentRegistry \<Rightarrow> bool \<times> ExtensibleComponentRegistry" where
  "ECR_enableComponent componentId r =
    (let r' = r\<lparr>configManager := CCM_enableComponent componentId (configManager r)\<rparr> in
     if \<not> ECR_isCoreComponent componentId
     then (case PM_enablePlugin componentId (pluginManager r') of
             (ok, pm') \<Rightarrow> (ok, r'\<lparr>pluginManager := pm'\<rparr>))
     else (True, r'))"

definition ECR_disableComponent ::
  "string \<Rightarrow> ExtensibleComponentRegistry \<Rightarrow> ExtensibleComponentRegistry" where
  "ECR_disableComponent componentId r =
    (let r' = r\<lparr>configManager := CCM_disableComponent componentId (configManager r)\<rparr> in
     if \<not> ECR_isCoreComponent componentId
     then r'\<lparr>pluginManager := snd (PM_disablePlugin componentId (pluginManager r'))\<rparr>
     else r')"

text \<open>
  The operations that the callers of the registry can apply to it: its own methods and
  those of the two managers it shares.
\<close>

datatype operation =
    RegisterComponent Plugin
  | UnregisterComponent string
  | DisableComponent string
  | EnableComponent string
  | RegisterPlugin Plugin
  | UnregisterPlugin string
  | DisablePlugin string
  | EnablePlugin string
  | SetCategoryDefault string string
  | ConfigDisableComponent string
  | ConfigEnableComponent string
  | UpdateGlobalConfig PartialGlobalComponentConfig
  | UpdateComponentSettings string PartialComponentSettings

fun apply_operation ::
  "operation \<Rightarrow> ExtensibleComponentRegistry \<Rightarrow> ExtensibleComponentRegistry" where
  "apply_operation (RegisterComponent pl) r = snd (ECR_registerComponent pl r)"
| "apply_operation (UnregisterComponent i) r = snd (ECR_unregisterComponent i r)"
| "apply_operation (DisableComponent i) r = ECR_disableComponent i r"
| "apply_operation (EnableComponent i) r = snd (ECR_enableComponent i r)"
| "apply_operation (RegisterPlugin pl) r =
     r\<lparr>pluginManager := snd (PM_registerPlugin pl (pluginManager r))\<rparr>"
| "apply_operation (UnregisterPlugin i) r =
     r\<lparr>pluginManager := snd (PM_unregisterPlugin i (pluginManager r))\<rparr>"
| "apply_operation (DisablePlugin i) r =
     r\<lparr>pluginManager := snd (PM_disablePlugin i (pluginManager r))\<rparr>"
| "apply_operation (EnablePlugin i) r =
     r\<lparr>pluginManager := snd (PM_enablePlugin i (pluginManager r))\<rparr>"
| "apply_operation (SetCategoryDefault c i) r =
     r\<lparr>pluginManager := PM_setCategoryDefault c i (pluginManager r)\<rparr>"
| "apply_operation (ConfigDisableComponent i) r =
     r\<lparr>configManager := CCM_disableComponent i (configManager r)\<rparr>"
| "apply_operation (ConfigEnableComponent i) r =
     r\<lparr>configManager := CCM_enableComponent i (configManager r)\<rparr>"
| "apply_operation (UpdateGlobalConfig c) r =
     r\<lparr>configManager := CCM_updateGlobalConfig c (configManager r)\<rparr>"
| "apply_operation (UpdateComponentSettings i c) r =
     r\<lparr>configManager := CCM_updateComponentSettings i c (configManager r)\<rparr>"

text \<open>A sequence of operations, applied from left to right.\<close>

definition run :: "operation list \<Rightarrow> ExtensibleComponentRegistry \<Rightarrow> ExtensibleComponentRegistry" where
  "run ops r = foldl (\<lambda>r' op. apply_operation op r') r ops"

section \<open>Example inputs\<close>

definition always_valid :: validator where
  "always_valid p = result_of [] []"

text \<open>A structurally complete plugin, as the test-suite generates them.\<close>

definition sample_plugin :: Plugin where
  "sample_plugin =
    \<lparr>plugin_id = Some ''tool_custom_hero'',
     plugin_component = Some (PluginRenderer ''CustomHero''),
     plugin_metadata =
       Some \<lparr>name = ''CustomHero'', description = ''A custom hero section'', category = ''hero'',
             requiredProps = Some [], optionalProps = []\<rparr>,
     plugin_validateProps = Some always_valid,
     plugin_toolDefinition = None, plugin_hooks = None, plugin_config = None\<rparr>"

text \<open>The same plugin under a core identifier.\<close>

definition shadowing_plugin :: Plugin where
  "shadowing_plugin = sample_plugin\<lparr>plugin_id := Some HERO_PRISM\<rparr>"

definition sample_operations :: "operation list" where
  "sample_operations =
    [RegisterComponent shadowing_plugin, DisableComponent HERO_PRISM, DisablePlugin HERO_PRISM,
     UnregisterComponent HERO_PRISM, UnregisterPlugin HERO_PRISM]"

definition sample_listener :: listener where
  "sample_listener = \<lparr>listener_ref = 1, raises = None\<rparr>"

definition sample_engine :: ThemeEngine where
  "sample_engine = subscribe sample_listener (new_ThemeEngine True)"

text \<open>The first registry of a process, with the hero fallback disabled.\<close>

definition hero_disabled_registry :: ExtensibleComponentRegistry where
  "hero_disabled_registry = run [ConfigDisableComponent HERO_PRISM] new_ExtensibleComponentRegistry"

definition custom_disallowed :: PartialGlobalComponentConfig where
  "custom_disallowed =
    \<lparr>upd_defaultSettings = None, upd_componentOverrides = None, upd_disabledComponents = None,
     upd_maxComponentsPerLayout = None, upd_allowCustomComponents = Some False,
     upd_debugMode = None\<rparr>"

definition closed_registry :: ExtensibleComponentRegistry where
  "closed_registry = run [UpdateGlobalConfig custom_disallowed] new_ExtensibleComponentRegistry"

text \<open>The empty property bag \<open>{}\<close>.\<close>

definition empty_props :: props where
  "empty_props = Map.empty"







text \<open>
  A registry whose hero fallback is disabled while the sample plugin is registered and
  is the default of the hero category.
\<close>

definition custom_default_registry :: ExtensibleComponentRegistry where
  "custom_default_registry =
    run [RegisterComponent sample_plugin, SetCategoryDefault ''hero'' ''tool_custom_hero'',
         ConfigDisableComponent HERO_PRISM]
      new_ExtensibleComponentRegistry"

text \<open>The plugin manager after the sample plugin has been registered once.\<close>

definition manager_with_plugin :: PluginManager where
  "manager_with_plugin = snd (PM_registerPlugin sample_plugin new_PluginManager)"




section \<open>Strings: occurrence and case\<close>

lemma includes_str_Nil: "includes_str s []"
  by (cases s) simp_all

lemma includes_str_self: "includes_str s s"
  by (cases s) auto

lemma includes_str_append_right: "includes_str s sub \<Longrightarrow> includes_str (p @ s) sub"
  by (induction p) (auto simp: includes_str_Nil)

lemma includes_str_append_left: "includes_str s sub \<Longrightarrow> includes_str (s @ q) sub"
proof (induction s)
  case Nil
  then show ?case by (simp add: includes_str_Nil)
next
  case (Cons c cs)
  show ?case
  proof (cases "prefix sub (c # cs)")
    case True
    then have "prefix sub ((c # cs) @ q)" by (rule prefix_prefix)
    then show ?thesis by simp
  next
    case False
    with Cons show ?thesis by simp
  qed
qed

lemma includes_str_middle: "includes_str (p @ s @ q) s"
  by (simp add: includes_str_append_right includes_str_append_left includes_str_self)

lemma toLowerCase_append: "toLowerCase (a @ b) = toLowerCase a @ toLowerCase b"
  by (simp add: toLowerCase_def)

lemma toLowerCase_simps:
  "toLowerCase [] = []"
  "toLowerCase (c # cs) = toLowerCase_char c # toLowerCase cs"
  by (simp_all add: toLowerCase_def)

lemma mentions_duplicate_order:
  "mentions (duplicate_order_warning toStr ord) ''duplicate order''"
  by (simp add: mentions_def duplicate_order_warning_def toLowerCase_append toLowerCase_simps
      toLowerCase_char_def upper_to_lower_def)

lemma mentions_unknown: "mentions (''Unknown component type: '' @ t) ''unknown''"
  by (simp add: mentions_def toLowerCase_append toLowerCase_simps
      toLowerCase_char_def upper_to_lower_def)


lemma mentions_overwritten:
  "mentions (''Plugin '' @ i @ '' already registered, will be overwritten'') ''overwritten''"
  by (simp only: mentions_def toLowerCase_append)
     (rule includes_str_append_right, rule includes_str_append_right,
      simp add: toLowerCase_simps toLowerCase_char_def upper_to_lower_def)

section \<open>Theme engine: properties\<close>

lemma isValidTheme_iff:
  "isValidTheme t \<longleftrightarrow> t = ''neon_blue'' \<or> t = ''emerald_green'' \<or> t = ''cyber_pink''"
  by (auto simp: isValidTheme_def ThemePalette_values_def enum_defs)

text \<open>
  C6 (theme totality). For every input string \<open>getThemeDefinition\<close> returns a defined
  theme definition whose four colours and CSS class are present, and for a string that is
  not one of the three palette identifiers the result is the definition of the default
  theme. The function takes its argument only, so equal inputs give equal results.
\<close>

theorem getThemeDefinition_total:
  "\<exists>d. getThemeDefinition theme = Some d \<and> fully_populated d
       \<and> (\<not> isValidTheme theme \<longrightarrow> Some d = map_of THEME_DEFINITIONS DEFAULT_THEME)"
  by (auto simp: getThemeDefinition_def isValidTheme_iff THEME_DEFINITIONS_def
      DEFAULT_THEME_def fully_populated_def enum_defs)

theorem getThemeDefinition_total_witness:
  "\<not> isValidTheme ''solarized''
   \<and> map_option cssClass (getThemeDefinition ''solarized'') = Some ''theme-neon-blue''
   \<and> map_option cssClass (getThemeDefinition ''cyber_pink'') = Some ''theme-cyber-pink''"
  using getThemeDefinition_total [of "''solarized''"] getThemeDefinition_total [of "''cyber_pink''"]
  by (auto simp: getThemeDefinition_def isValidTheme_iff THEME_DEFINITIONS_def
      DEFAULT_THEME_def enum_defs)

lemma notify_listeners_calls:
  "listener_calls (notify_listeners t ls e)
   = listener_calls e @ map (\<lambda>l. (listener_ref l, t)) ls"
  by (induction ls arbitrary: e) (auto simp: Let_def split: option.splits)

text \<open>
  C7 (non-blocking theme change). Let \<open>validTheme\<close> be the argument, or the default theme
  when the argument is not a palette identifier. If it differs from the current theme,
  \<open>setTheme\<close> returns with the current theme updated, with no listener called, and with
  one more pending microtask; when the host then runs the microtask queue, every
  subscribed listener is called once with the new theme. If it equals the current theme
  (in particular for an invalid identifier while the current theme is the default),
  \<open>setTheme\<close> changes nothing: no microtask is queued and no listener is ever called
  on its behalf.
\<close>

theorem setTheme_nonblocking:
  "(let validTheme = (if isValidTheme theme then theme else DEFAULT_THEME);
        e' = setTheme theme e in
    (validTheme \<noteq> currentTheme e \<longrightarrow>
       getTheme e' = validTheme \<and> listener_calls e' = listener_calls e
       \<and> microtasks e' = microtasks e @ [validTheme]
       \<and> (microtasks e = [] \<longrightarrow>
            listener_calls (run_microtasks e')
            = listener_calls e @ map (\<lambda>l. (listener_ref l, validTheme)) (listeners e)))
    \<and> (validTheme = currentTheme e \<longrightarrow> e' = e)
    \<and> (\<not> isValidTheme theme \<and> currentTheme e = DEFAULT_THEME \<longrightarrow> e' = e))"
  by (auto simp: Let_def setTheme_def queueMicrotask_def applyGlobalTheme_def getTheme_def
      run_microtasks_def notify_listeners_calls)

theorem setTheme_nonblocking_witness:
  "CYBER_PINK \<noteq> currentTheme sample_engine \<and> microtasks sample_engine = []
   \<and> getTheme (setTheme CYBER_PINK sample_engine) = CYBER_PINK
   \<and> listener_calls (setTheme CYBER_PINK sample_engine) = []
   \<and> listener_calls (run_microtasks (setTheme CYBER_PINK sample_engine)) = [(1, CYBER_PINK)]
   \<and> \<not> isValidTheme ''solarized'' \<and> currentTheme sample_engine = DEFAULT_THEME
   \<and> setTheme ''solarized'' sample_engine = sample_engine
   \<and> setTheme NEON_BLUE sample_engine = sample_engine"
  using setTheme_nonblocking [of CYBER_PINK sample_engine]
    setTheme_nonblocking [of "''solarized''" sample_engine]
    setTheme_nonblocking [of NEON_BLUE sample_engine]
  by (simp add: Let_def isValidTheme_iff sample_engine_def sample_listener_def subscribe_def
      new_ThemeEngine_def DEFAULT_THEME_def enum_defs)

section \<open>Core registry: lookups\<close>

lemma isValidComponentType_iff:
  "isValidComponentType t \<longleftrightarrow>
     t = HERO_PRISM \<or> t = HERO_TERMINAL \<or> t = EXP_TIMELINE \<or> t = EXP_MASONRY
     \<or> t = SKILLS_DOTS \<or> t = SKILLS_RADAR \<or> t = STATS_BENTO"
  by (auto simp: isValidComponentType_def ComponentType_values_def)

lemma registry_value:
  "initializeRegistry toStr =
    map (\<lambda>t. (t, \<lparr>component = map_of COMPONENT_MAP t, metadata = map_of componentMetadata t,
                   validateProps = map_of (propValidators toStr) t\<rparr>)) ComponentType_values"
  by (simp add: initializeRegistry_def ComponentType_values_def Map_set_def enum_defs)

lemma CR_getComponent_core:
  "isValidComponentType t \<Longrightarrow> CR_getComponent toStr t \<noteq> None"
  unfolding isValidComponentType_iff
  by (auto simp: CR_getComponent_def isValidComponentType_iff registry_value Map_get_def
      ComponentType_values_def COMPONENT_MAP_def enum_defs)

lemma CR_getMetadata_core:
  "isValidComponentType t \<Longrightarrow> CR_getMetadata toStr t \<noteq> None"
  unfolding isValidComponentType_iff
  by (auto simp: CR_getMetadata_def isValidComponentType_iff registry_value Map_get_def
      ComponentType_values_def componentMetadata_def enum_defs)

lemma ECR_getComponent_core:
  assumes "ECR_isCoreComponent componentId"
  shows "source (ECR_getComponent toStr r componentId) = from_core"
    and "lookup_component (ECR_getComponent toStr r componentId) \<noteq> None"
    and "lookup_metadata (ECR_getComponent toStr r componentId) \<noteq> None"
  using assms CR_getComponent_core [of componentId toStr] CR_getMetadata_core [of componentId toStr]
  by (simp_all add: ECR_getComponent_def ECR_isCoreComponent_def isValidComponentType_def Let_def)

section \<open>Extensible registry: properties\<close>

text \<open>
  C1 (core inviolability). For each of the seven core identifiers and every sequence of
  operations on the registry and its two managers (registering, unregistering, enabling
  and disabling plugins and components, changing the configuration), from any starting
  state: \<open>getComponent\<close> reports the source \<open>core\<close> with a component and metadata that
  are not null, and \<open>unregisterComponent\<close> returns false and leaves the registry as it
  was.
\<close>

theorem core_inviolability:
  "componentId \<in> set ComponentType_values \<Longrightarrow>
   (let r = run ops r0; result = ECR_getComponent toStr r componentId in
      source result = from_core \<and> lookup_component result \<noteq> None
      \<and> lookup_metadata result \<noteq> None
      \<and> ECR_unregisterComponent componentId r = (False, r))"
  using ECR_getComponent_core [of componentId toStr "run ops r0"]
  by (simp add: Let_def ECR_isCoreComponent_def ECR_unregisterComponent_def)

theorem core_inviolability_witness:
  "HERO_PRISM \<in> set ComponentType_values
   \<and> source (ECR_getComponent object_toString
        (run sample_operations new_ExtensibleComponentRegistry) HERO_PRISM) = from_core
   \<and> lookup_component (ECR_getComponent object_toString
        (run sample_operations new_ExtensibleComponentRegistry) HERO_PRISM) = Some HeroPrism
   \<and> fst (ECR_unregisterComponent HERO_PRISM
        (run sample_operations new_ExtensibleComponentRegistry)) = False"
  using core_inviolability
    [of HERO_PRISM sample_operations new_ExtensibleComponentRegistry object_toString]
  by (simp add: Let_def ComponentType_values_def ECR_getComponent_def ECR_isCoreComponent_def
      CR_getComponent_def isValidComponentType_def registry_value Map_get_def COMPONENT_MAP_def
      enum_defs)

lemma fallback_cases:
  "cat \<in> set categories \<Longrightarrow>
    \<exists>ft c. map_of FALLBACK_COMPONENTS cat = Some ft \<and> ft \<noteq> [] \<and> ECR_isCoreComponent ft
         \<and> map_of COMPONENT_MAP ft = Some c \<and> cat \<notin> set Object_prototype_keys"
  by (auto simp: categories_def FALLBACK_COMPONENTS_def ECR_isCoreComponent_def
      ComponentType_values_def COMPONENT_MAP_def Object_prototype_keys_def enum_defs)

text \<open>
  C2, as stated, fails: with the hero fallback \<open>tool_hero_prism\<close> disabled in the
  configuration manager and no custom category default, \<open>getFallbackComponent\<close> of the
  hero category is null.
\<close>

theorem fallback_disabled_counterexample:
  "ECR_getFallbackComponent object_toString hero_disabled_registry ''hero'' = None"
  by (simp add: hero_disabled_registry_def run_def ECR_getFallbackComponent_def
      new_ExtensibleComponentRegistry_def new_PluginManager_def new_ComponentConfigManager_def
      DEFAULT_GLOBAL_CONFIG_def CCM_disableComponent_def emitChange_def maxHistorySize_def
      PM_getCategoryDefault_def Object_prototype_keys_def FALLBACK_COMPONENTS_def
      CCM_isComponentDisabled_def Let_def enum_defs)

text \<open>
  C2, amended. Every category has a core fallback identifier with a renderer, and in
  every state of the registry \<open>getFallbackComponent\<close> returns a renderer exactly when
  that identifier is not disabled in the configuration manager or the plugin manager's
  default for the category is a non-empty identifier that \<open>getComponent\<close> resolves to
  an enabled component. With such a category default the result is that component;
  without one and with the core fallback not disabled it is the core fallback's renderer;
  so the result is null only when the core fallback is disabled and no category default
  is usable.
\<close>

theorem fallback_exact:
  "cat \<in> set categories \<Longrightarrow>
    (\<exists>fallbackType coreRenderer.
       map_of FALLBACK_COMPONENTS cat = Some fallbackType
       \<and> ECR_isCoreComponent fallbackType
       \<and> map_of COMPONENT_MAP fallbackType = Some coreRenderer
       \<and> (ECR_getFallbackComponent toStr r cat \<noteq> None
            \<longleftrightarrow> \<not> CCM_isComponentDisabled (configManager r) fallbackType
                \<or> (\<exists>d. PM_getCategoryDefault (pluginManager r) cat = OwnString d \<and> d \<noteq> []
                       \<and> lookup_component (ECR_getComponent toStr r d) \<noteq> None
                       \<and> isEnabled (ECR_getComponent toStr r d)))
       \<and> (\<forall>d. PM_getCategoryDefault (pluginManager r) cat = OwnString d \<and> d \<noteq> []
                \<and> lookup_component (ECR_getComponent toStr r d) \<noteq> None
                \<and> isEnabled (ECR_getComponent toStr r d)
              \<longrightarrow> ECR_getFallbackComponent toStr r cat
                   = lookup_component (ECR_getComponent toStr r d))
       \<and> (\<not> CCM_isComponentDisabled (configManager r) fallbackType
            \<and> \<not> (\<exists>d. PM_getCategoryDefault (pluginManager r) cat = OwnString d \<and> d \<noteq> []
                       \<and> lookup_component (ECR_getComponent toStr r d) \<noteq> None
                       \<and> isEnabled (ECR_getComponent toStr r d))
            \<longrightarrow> ECR_getFallbackComponent toStr r cat = Some coreRenderer))"
proof -
  assume "cat \<in> set categories"
  then obtain ft c where ft: "map_of FALLBACK_COMPONENTS cat = Some ft" "ft \<noteq> []"
      "ECR_isCoreComponent ft" "map_of COMPONENT_MAP ft = Some c"
    using fallback_cases by blast
  show ?thesis
    using ft
    by (auto simp: ECR_getFallbackComponent_def Let_def split: property_read.splits if_splits)
qed

theorem fallback_exact_witness:
  "''hero'' \<in> set categories
   \<and> \<not> CCM_isComponentDisabled (configManager new_ExtensibleComponentRegistry) HERO_PRISM
   \<and> ECR_getFallbackComponent object_toString new_ExtensibleComponentRegistry ''hero''
       = Some HeroPrism
   \<and> CCM_isComponentDisabled (configManager hero_disabled_registry) HERO_PRISM
   \<and> PM_getCategoryDefault (pluginManager hero_disabled_registry) ''hero'' = Undefined
   \<and> ECR_getFallbackComponent object_toString hero_disabled_registry ''hero'' = None
   \<and> CCM_isComponentDisabled (configManager custom_default_registry) HERO_PRISM
   \<and> PM_getCategoryDefault (pluginManager custom_default_registry) ''hero''
       = OwnString ''tool_custom_hero''
   \<and> isEnabled (ECR_getComponent object_toString custom_default_registry ''tool_custom_hero'')
   \<and> ECR_getFallbackComponent object_toString custom_default_registry ''hero''
       = Some (PluginRenderer ''CustomHero'')"
proof -
  have cat: "''hero'' \<in> set categories"
    by (simp add: categories_def)
  have fb: "map_of FALLBACK_COMPONENTS ''hero'' = Some HERO_PRISM"
    "map_of COMPONENT_MAP HERO_PRISM = Some HeroPrism"
    by (simp_all add: FALLBACK_COMPONENTS_def COMPONENT_MAP_def)
  have new_enabled:
    "\<not> CCM_isComponentDisabled (configManager new_ExtensibleComponentRegistry) HERO_PRISM"
    by (simp add: CCM_isComponentDisabled_def new_ExtensibleComponentRegistry_def
        new_ComponentConfigManager_def DEFAULT_GLOBAL_CONFIG_def)
  have new_default:
    "PM_getCategoryDefault (pluginManager new_ExtensibleComponentRegistry) ''hero'' = Undefined"
    by (simp add: PM_getCategoryDefault_def new_ExtensibleComponentRegistry_def
        new_PluginManager_def Object_prototype_keys_def)
  have hd_disabled: "CCM_isComponentDisabled (configManager hero_disabled_registry) HERO_PRISM"
    by (simp add: hero_disabled_registry_def run_def CCM_isComponentDisabled_def
        CCM_disableComponent_def emitChange_def Let_def new_ExtensibleComponentRegistry_def
        new_ComponentConfigManager_def DEFAULT_GLOBAL_CONFIG_def)
  have hd_default:
    "PM_getCategoryDefault (pluginManager hero_disabled_registry) ''hero'' = Undefined"
    by (simp add: hero_disabled_registry_def run_def PM_getCategoryDefault_def
        new_ExtensibleComponentRegistry_def new_PluginManager_def Object_prototype_keys_def)
  have state: "custom_default_registry =
      \<lparr>pluginManager =
         \<lparr>plugins = [(''tool_custom_hero'', sample_plugin)],
          configs = [(''tool_custom_hero'', default_PluginConfig)],
          availabilityConfig =
            \<lparr>enabledComponents = [], avail_disabledComponents = [],
             categoryDefaults = [''hero'' \<mapsto> ''tool_custom_hero''],
             priorityOverrides = Map.empty\<rparr>\<rparr>,
       configManager =
         \<lparr>globalConfig = DEFAULT_GLOBAL_CONFIG\<lparr>disabledComponents := [HERO_PRISM]\<rparr>,
          configHistory =
            [\<lparr>event_type = availability_change, event_componentId = Some HERO_PRISM\<rparr>]\<rparr>,
       customComponents =
         [(''tool_custom_hero'',
           \<lparr>component = Some (PluginRenderer ''CustomHero''),
            metadata = plugin_metadata sample_plugin,
            validateProps = Some always_valid, isPlugin = True,
            entry_pluginId = Some ''tool_custom_hero'', toolDefinition = None\<rparr>)]\<rparr>"
    by (simp add: custom_default_registry_def run_def ECR_registerComponent_def
        CCM_getGlobalConfig_def PM_registerPlugin_def structure_errors_def Let_def
        duplicate_warning_def onRegister_warning_def Map_has_def Map_set_def
        PM_setCategoryDefault_def CCM_disableComponent_def emitChange_def maxHistorySize_def
        new_ExtensibleComponentRegistry_def new_ComponentConfigManager_def
        DEFAULT_GLOBAL_CONFIG_def new_PluginManager_def sample_plugin_def)
  have cd_disabled: "CCM_isComponentDisabled (configManager custom_default_registry) HERO_PRISM"
    by (simp add: state CCM_isComponentDisabled_def)
  have cd_default: "PM_getCategoryDefault (pluginManager custom_default_registry) ''hero''
      = OwnString ''tool_custom_hero''"
    by (simp add: state PM_getCategoryDefault_def)
  have cd_lookup: "ECR_getComponent object_toString custom_default_registry ''tool_custom_hero''
      = \<lparr>lookup_component = Some (PluginRenderer ''CustomHero''),
         lookup_metadata = plugin_metadata sample_plugin, lookup_isPlugin = True,
         isEnabled = True, source = from_plugin\<rparr>"
    by (simp add: state ECR_getComponent_def ECR_isCoreComponent_def ComponentType_values_def
        CCM_isComponentDisabled_def Let_def Map_get_def PM_isPluginEnabled_def
        default_PluginConfig_def enum_defs)
  show ?thesis
    using fallback_exact [of "''hero''" object_toString new_ExtensibleComponentRegistry]
      fallback_exact [of "''hero''" object_toString hero_disabled_registry]
      fallback_exact [of "''hero''" object_toString custom_default_registry]
      cat fb new_enabled new_default hd_disabled hd_default cd_disabled cd_default cd_lookup
    by simp
qed

text \<open>
  C10. While the global configuration has \<open>allowCustomComponents\<close> false,
  \<open>registerComponent\<close> returns \<open>success: false\<close> with the single error that custom
  components are not allowed and no warning, and the registry (plugin map, per-plugin
  configurations, custom components and all the rest) is unchanged.
\<close>

theorem registerComponent_not_allowed:
  "\<not> allowCustomComponents (globalConfig (configManager r)) \<Longrightarrow>
   ECR_registerComponent pl r =
     (\<lparr>success = False,
       reg_errors = [''Custom components are not allowed in current configuration''],
       reg_warnings = []\<rparr>, r)"
  by (simp add: ECR_registerComponent_def CCM_getGlobalConfig_def)

theorem registerComponent_not_allowed_witness:
  "\<not> allowCustomComponents (globalConfig (configManager closed_registry))
   \<and> success (fst (ECR_registerComponent sample_plugin closed_registry)) = False
   \<and> plugins (pluginManager (snd (ECR_registerComponent sample_plugin closed_registry))) = []
   \<and> customComponents (snd (ECR_registerComponent sample_plugin closed_registry)) = []
   \<and> success (fst (ECR_registerComponent sample_plugin new_ExtensibleComponentRegistry)) = True"
proof -
  have closed: "\<not> allowCustomComponents (globalConfig (configManager closed_registry))"
    by (simp add: closed_registry_def run_def custom_disallowed_def CCM_updateGlobalConfig_def
        emitChange_def Let_def)
  have empty: "plugins (pluginManager closed_registry) = []"
    "customComponents closed_registry = []"
    by (simp_all add: closed_registry_def run_def new_ExtensibleComponentRegistry_def
        new_PluginManager_def)
  have "success (fst (ECR_registerComponent sample_plugin new_ExtensibleComponentRegistry))"
    by (simp add: ECR_registerComponent_def CCM_getGlobalConfig_def
        new_ExtensibleComponentRegistry_def new_ComponentConfigManager_def
        DEFAULT_GLOBAL_CONFIG_def PM_registerPlugin_def structure_errors_def sample_plugin_def
        Let_def split: prod.splits)
  with closed empty registerComponent_not_allowed [OF closed, of sample_plugin]
  show ?thesis by simp
qed

section \<open>Core registry: validation\<close>





text \<open>
  C3, as stated, fails at the extensible entry point: for the unregistered identifier
  \<open>tool_custom_hero\<close> its \<open>validateProps\<close> returns the single error
  \<open>Plugin not found: tool_custom_hero\<close>, which does not mention "unknown".
\<close>

theorem plugin_not_found_counterexample:
  "ECR_validateProps object_toString new_ExtensibleComponentRegistry ''tool_custom_hero'' empty_props
     = Inr \<lparr>valid = False, errors = [''Plugin not found: tool_custom_hero''], warnings = []\<rparr>
   \<and> \<not> mentions ''Plugin not found: tool_custom_hero'' ''unknown''"
  by (simp add: ECR_validateProps_def ECR_isCoreComponent_def ComponentType_values_def
      PM_validatePluginProps_def Map_get_def new_ExtensibleComponentRegistry_def
      new_PluginManager_def mentions_def toLowerCase_simps toLowerCase_char_def
      upper_to_lower_def enum_defs)

text \<open>
  C3, amended. For a string that is none of the seven core identifiers and is registered
  neither in the plugin manager nor among the custom components: the core \<open>getComponent\<close>
  and \<open>getMetadata\<close> return null; the extensible lookup reports \<open>not_found\<close> with null
  component and metadata; the core \<open>validateProps\<close> returns \<open>valid: false\<close> with the
  single error \<open>Unknown component type: <id>\<close>, which mentions "unknown"; and the
  extensible \<open>validateProps\<close> returns \<open>valid: false\<close> with the single error
  \<open>Plugin not found: <id>\<close>.
\<close>

theorem unknown_identifier:
  "\<not> ECR_isCoreComponent componentId \<and> \<not> Map_has (customComponents r) componentId
   \<and> \<not> PM_hasPlugin (pluginManager r) componentId \<Longrightarrow>
   CR_getComponent toStr componentId = None \<and> CR_getMetadata toStr componentId = None
   \<and> ECR_getComponent toStr r componentId
       = \<lparr>lookup_component = None, lookup_metadata = None, lookup_isPlugin = False,
          isEnabled = False, source = not_found\<rparr>
   \<and> CR_validateProps toStr componentId p
       = Inr \<lparr>valid = False, errors = [''Unknown component type: '' @ componentId],
              warnings = []\<rparr>
   \<and> mentions (''Unknown component type: '' @ componentId) ''unknown''
   \<and> ECR_validateProps toStr r componentId p
       = Inr \<lparr>valid = False, errors = [''Plugin not found: '' @ componentId], warnings = []\<rparr>"
  using mentions_unknown [of componentId]
  by (auto simp: ECR_isCoreComponent_def CR_getComponent_def CR_getMetadata_def
      isValidComponentType_def ECR_getComponent_def Map_has_def Map_get_def PM_hasPlugin_def
      CR_validateProps_def ECR_validateProps_def PM_validatePluginProps_def Let_def
      split: option.splits)

theorem unknown_identifier_witness:
  "\<not> ECR_isCoreComponent ''tool_custom_hero''
   \<and> \<not> Map_has (customComponents new_ExtensibleComponentRegistry) ''tool_custom_hero''
   \<and> \<not> PM_hasPlugin (pluginManager new_ExtensibleComponentRegistry) ''tool_custom_hero''
   \<and> source (ECR_getComponent object_toString new_ExtensibleComponentRegistry ''tool_custom_hero'')
       = not_found
   \<and> CR_validateProps object_toString ''tool_custom_hero'' empty_props
       = Inr \<lparr>valid = False, errors = [''Unknown component type: tool_custom_hero''],
              warnings = []\<rparr>"
  using unknown_identifier [of "''tool_custom_hero''" new_ExtensibleComponentRegistry
      object_toString empty_props]
  by (simp add: ECR_isCoreComponent_def ComponentType_values_def Map_has_def PM_hasPlugin_def
      new_ExtensibleComponentRegistry_def new_PluginManager_def enum_defs)












section \<open>Plugin manager: properties\<close>

lemma Map_size_set:
  "Map_size (Map_set k v m) = (if Map_has m k then Map_size m else Suc (Map_size m))"
  by (induction m) (auto simp: Map_size_def Map_set_def Map_has_def)

text \<open>
  C8 (plugin overwrite). Registering a structurally complete plugin under an identifier
  that the plugin map already holds succeeds with no error and with a warning that
  mentions "overwritten" and contains the identifier; afterwards the map holds the new
  plugin under that identifier and has as many plugins as before. A configuration that
  exists for the identifier is kept as it is; only when there is none is one seeded, the
  plugin's own or else the default (\<open>enabled: true, priority: 0\<close>).
\<close>

theorem registerPlugin_overwrite:
  "structure_errors pl = [] \<and> plugin_id pl = Some i \<and> Map_has (plugins pm) i \<Longrightarrow>
   (case PM_registerPlugin pl pm of
      (result, pm') \<Rightarrow>
        success result \<and> reg_errors result = []
        \<and> (\<exists>w \<in> set (reg_warnings result). mentions w ''overwritten'' \<and> includes_str w i)
        \<and> Map_get (plugins pm') i = Some pl
        \<and> PM_getPluginCount pm' = PM_getPluginCount pm
        \<and> (Map_has (configs pm) i \<longrightarrow> configs pm' = configs pm)
        \<and> (\<not> Map_has (configs pm) i \<longrightarrow>
             Map_get (configs pm') i
             = Some (case plugin_config pl of None \<Rightarrow> default_PluginConfig | Some c \<Rightarrow> c)))"
proof -
  assume a: "structure_errors pl = [] \<and> plugin_id pl = Some i \<and> Map_has (plugins pm) i"
  define w where "w = ''Plugin '' @ i @ '' already registered, will be overwritten''"
  define cs where "cs = (if \<not> Map_has (configs pm) i
      then Map_set i (case plugin_config pl of None \<Rightarrow> default_PluginConfig | Some c \<Rightarrow> c)
             (configs pm)
      else configs pm)"
  have dw: "duplicate_warning pm pl = [w]"
    using a by (simp add: duplicate_warning_def w_def)
  have res: "PM_registerPlugin pl pm
      = (\<lparr>success = True, reg_errors = [], reg_warnings = [w] @ onRegister_warning pl,
          pluginId = i\<rparr>,
         pm\<lparr>plugins := Map_set i pl (plugins pm), configs := cs\<rparr>)"
    using a by (simp add: PM_registerPlugin_def Let_def dw cs_def)
  have m: "mentions w ''overwritten'' \<and> includes_str w i"
    unfolding w_def using mentions_overwritten [of i]
      includes_str_middle [of "''Plugin ''" i "'' already registered, will be overwritten''"]
    by simp
  have g: "Map_get (Map_set i pl (plugins pm)) i = Some pl"
    by (simp add: Map_get_def Map_set_def update_conv')
  have n: "Map_size (Map_set i pl (plugins pm)) = Map_size (plugins pm)"
    using a by (simp add: Map_size_set)
  have c1: "Map_has (configs pm) i \<longrightarrow> cs = configs pm"
    by (simp add: cs_def)
  have c2: "\<not> Map_has (configs pm) i \<longrightarrow>
      Map_get cs i = Some (case plugin_config pl of None \<Rightarrow> default_PluginConfig | Some c \<Rightarrow> c)"
    by (simp add: cs_def Map_get_def Map_set_def update_conv')
  show ?thesis
    unfolding res using m g n c1 c2 by (simp add: PM_getPluginCount_def)
qed

theorem registerPlugin_overwrite_witness:
  "structure_errors sample_plugin = [] \<and> plugin_id sample_plugin = Some ''tool_custom_hero''
   \<and> Map_has (plugins manager_with_plugin) ''tool_custom_hero''
   \<and> Map_has (configs manager_with_plugin) ''tool_custom_hero''
   \<and> PM_getPluginCount manager_with_plugin = 1
   \<and> success (fst (PM_registerPlugin sample_plugin manager_with_plugin))
   \<and> PM_getPluginCount (snd (PM_registerPlugin sample_plugin manager_with_plugin)) = 1
   \<and> configs (snd (PM_registerPlugin sample_plugin manager_with_plugin))
       = configs manager_with_plugin"
proof -
  have se: "structure_errors sample_plugin = []"
    by (simp add: structure_errors_def sample_plugin_def)
  have pid: "plugin_id sample_plugin = Some ''tool_custom_hero''"
    by (simp add: sample_plugin_def)
  have pc: "plugin_config sample_plugin = None"
    by (simp add: sample_plugin_def)
  have m: "manager_with_plugin
      = new_PluginManager\<lparr>plugins := [(''tool_custom_hero'', sample_plugin)],
                          configs := [(''tool_custom_hero'', default_PluginConfig)]\<rparr>"
    by (simp add: manager_with_plugin_def PM_registerPlugin_def se pid pc Let_def
        new_PluginManager_def Map_has_def Map_set_def)
  have h: "Map_has (plugins manager_with_plugin) ''tool_custom_hero''"
    "Map_has (configs manager_with_plugin) ''tool_custom_hero''"
    by (simp_all add: m Map_has_def)
  have c: "PM_getPluginCount manager_with_plugin = 1"
    by (simp add: m PM_getPluginCount_def Map_size_def)
  show ?thesis
    using registerPlugin_overwrite [of sample_plugin "''tool_custom_hero''" manager_with_plugin]
      se pid h c
    by (auto split: prod.splits)
qed

section \<open>Configuration manager: properties\<close>



end
